theory Spec2Isabelle
  imports Main "HOL-Library.Word" "HOL-Library.Sublist"
begin

section \<open>The request context of blademaster (context.go)\<close>

text \<open>
  A shallow embedding of \<^verbatim>\<open>pkg/net/http/blademaster/context.go\<close>. The Go struct
  \<^verbatim>\<open>Context\<close> is a record, its methods are functions that take the context and
  return the updated one, a runtime panic is a value of type \<open>panic\<close>, and the dispatch
  loop of \<^verbatim>\<open>Next\<close> is a recursive function.
\<close>

subsection \<open>Values, errors and the collaborators of the context\<close>

text \<open>
  A Go \<^verbatim>\<open>interface{}\<close> value with its dynamic type. \<^verbatim>\<open>int\<close> and \<^verbatim>\<open>uint\<close>
  are distinct dynamic types from \<^verbatim>\<open>int64\<close> and \<^verbatim>\<open>uint64\<close>. A
  \<^verbatim>\<open>float64\<close> is carried as its 64 IEEE-754 bits (the zero value is the word 0);
  no arithmetic is done on any payload. \<open>VOther\<close> is a value of any other dynamic type.
\<close>

datatype any =
    VNil
  | VString string
  | VBool bool
  | VInt int
  | VInt64 int
  | VUint nat
  | VUint64 nat
  | VFloat64 "64 word"
  | VOther nat

text \<open>
  A Go \<^verbatim>\<open>error\<close>: an application code of package ecode, an error that only
  carries its text, the validator's collection of field errors (opaque references),
  and \<^verbatim>\<open>errors.WithStack\<close> around another error. The nil error is \<open>None\<close>.
\<close>

datatype error =
    Ecode int
  | ErrorString string
  | ValidationErrors "nat list"
  | WithStack error

datatype panic = IndexOutOfRange | NilMapAssignment

text \<open>\<^verbatim>\<open>http.Header\<close> and \<^verbatim>\<open>url.Values\<close>: a map from a name to a list of values.\<close>

type_synonym Values = "string \<rightharpoonup> string list"

definition Values_Get :: "Values \<Rightarrow> string \<Rightarrow> string" where
  "Values_Get h k = (case h k of None \<Rightarrow> [] | Some vs \<Rightarrow> (case vs of [] \<Rightarrow> [] | v # _ \<Rightarrow> v))"

definition Values_Set :: "Values \<Rightarrow> string \<Rightarrow> string \<Rightarrow> Values" where
  "Values_Set h k v = h(k \<mapsto> [v])"

text \<open>
  \<^verbatim>\<open>http.ResponseWriter\<close> is an interface. Its header map is data; the calls of
  \<^verbatim>\<open>WriteHeader\<close> and \<^verbatim>\<open>Write\<close> made on it are kept in order in \<open>wrote\<close>.
\<close>

datatype wcall = WriteHeader int | Write string

record ResponseWriter =
  header :: Values
  wrote :: "wcall list"

record Request =
  Method :: string
  Header :: Values
  Form :: Values

text \<open>A route parameter, and the slice \<^verbatim>\<open>Params\<close>: its backing array and its length.\<close>

type_synonym Param = "string \<times> string"

record Params_slice =
  array :: "Param list"
  len :: nat

definition cap :: "Params_slice \<Rightarrow> nat" where
  "cap p = length (array p)"

definition elems :: "Params_slice \<Rightarrow> Param list" where
  "elems p = take (len p) (array p)"

text \<open>
  What a handler does with the context, as far as this file is concerned: the sequence of
  calls it makes on it. The handler itself lives in the application.
\<close>

datatype call =
    CallNext
  | CallAbort
  | CallAbortWithStatus int
  | CallSet string any

type_synonym HandlerFunc = "call list"

record Context =
  ctx :: "nat option"
  Request :: Request
  Writer :: ResponseWriter
  index :: int
  handlers :: "HandlerFunc list"
  Keys :: "(string \<rightharpoonup> any) option"
  Error :: "error option"
  ErrorMsg :: string
  method_field :: string
  engine :: nat
  RoutePath :: string
  Params :: Params_slice


definition abortIndex :: int where
  "abortIndex = 127 div 2"

subsection \<open>Context creation\<close>

definition reset :: "Context \<Rightarrow> Context" where
  "reset c = c\<lparr>ctx := None, index := -1, handlers := [], Keys := None, Error := None,
     ErrorMsg := [], method_field := [], RoutePath := [], Params := (Params c)\<lparr>len := 0\<rparr>\<rparr>"

subsection \<open>Flow control\<close>

definition Abort :: "Context \<Rightarrow> Context" where
  "Abort c = c\<lparr>index := abortIndex\<rparr>"

definition Status :: "int \<Rightarrow> Context \<Rightarrow> Context" where
  "Status code c = c\<lparr>Writer := (Writer c)\<lparr>wrote := wrote (Writer c) @ [WriteHeader code]\<rparr>\<rparr>"


definition IsAborted :: "Context \<Rightarrow> bool" where
  "IsAborted c = (index c \<ge> abortIndex)"

definition Set_key :: "string \<Rightarrow> any \<Rightarrow> Context \<Rightarrow> Context" where
  "Set_key key v c =
     (let ks = (case Keys c of None \<Rightarrow> Map.empty | Some m \<Rightarrow> m) in c\<lparr>Keys := Some (ks(key \<mapsto> v))\<rparr>)"




subsection \<open>Metadata management\<close>

definition Get :: "Context \<Rightarrow> string \<Rightarrow> any \<times> bool" where
  "Get c key =
     (case Keys c of
        None \<Rightarrow> (VNil, False)
      | Some m \<Rightarrow> (case m key of None \<Rightarrow> (VNil, False) | Some v \<Rightarrow> (v, True)))"

definition GetString :: "Context \<Rightarrow> string \<Rightarrow> string" where
  "GetString c key =
     (case Get c key of (val, ok) \<Rightarrow>
        if ok \<and> val \<noteq> VNil then (case val of VString s \<Rightarrow> s | _ \<Rightarrow> []) else [])"

definition GetBool :: "Context \<Rightarrow> string \<Rightarrow> bool" where
  "GetBool c key =
     (case Get c key of (val, ok) \<Rightarrow>
        if ok \<and> val \<noteq> VNil then (case val of VBool b \<Rightarrow> b | _ \<Rightarrow> False) else False)"

definition GetInt :: "Context \<Rightarrow> string \<Rightarrow> int" where
  "GetInt c key =
     (case Get c key of (val, ok) \<Rightarrow>
        if ok \<and> val \<noteq> VNil then (case val of VInt i \<Rightarrow> i | _ \<Rightarrow> 0) else 0)"

definition GetUint :: "Context \<Rightarrow> string \<Rightarrow> nat" where
  "GetUint c key =
     (case Get c key of (val, ok) \<Rightarrow>
        if ok \<and> val \<noteq> VNil then (case val of VUint u \<Rightarrow> u | _ \<Rightarrow> 0) else 0)"

definition GetInt64 :: "Context \<Rightarrow> string \<Rightarrow> int" where
  "GetInt64 c key =
     (case Get c key of (val, ok) \<Rightarrow>
        if ok \<and> val \<noteq> VNil then (case val of VInt64 i \<Rightarrow> i | _ \<Rightarrow> 0) else 0)"

definition GetUint64 :: "Context \<Rightarrow> string \<Rightarrow> nat" where
  "GetUint64 c key =
     (case Get c key of (val, ok) \<Rightarrow>
        if ok \<and> val \<noteq> VNil then (case val of VUint64 u \<Rightarrow> u | _ \<Rightarrow> 0) else 0)"

definition GetFloat64 :: "Context \<Rightarrow> string \<Rightarrow> 64 word" where
  "GetFloat64 c key =
     (case Get c key of (val, ok) \<Rightarrow>
        if ok \<and> val \<noteq> VNil then (case val of VFloat64 f \<Rightarrow> f | _ \<Rightarrow> 0) else 0)"

subsection \<open>The library functions the context calls\<close>

text \<open>
  \<^verbatim>\<open>strings.Split(s, sep)\<close>: the pieces of \<open>s\<close> between the occurrences of \<open>sep\<close>,
  found from the left without overlap; with an empty separator, one piece per byte.
  \<open>Split_aux sep acc s\<close> has read the piece \<open>acc\<close> so far.
\<close>

function Split_aux :: "string \<Rightarrow> string \<Rightarrow> string \<Rightarrow> string list" where
  "Split_aux sep acc [] = [acc]"
| "Split_aux sep acc (c # cs) =
     (if sep \<noteq> [] \<and> prefix sep (c # cs)
      then acc # Split_aux sep [] (drop (length sep) (c # cs))
      else Split_aux sep (acc @ [c]) cs)"
  by pat_completeness auto
termination
  by (relation "measure (\<lambda>(sep, acc, s). length s)") (auto simp: neq_Nil_conv)

declare Split_aux.simps [simp del]

definition Split :: "string \<Rightarrow> string \<Rightarrow> string list" where
  "Split s sep = (if sep = [] then map (\<lambda>c. [c]) s else Split_aux sep [] s)"

text \<open>
  \<^verbatim>\<open>strings.TrimSpace\<close>, for the white space of ASCII (tab, line feed, vertical tab,
  form feed, carriage return, space).
\<close>

definition isSpace :: "char \<Rightarrow> bool" where
  "isSpace c = (c = CHR 0x09 \<or> c = CHR 0x0A \<or> c = CHR 0x0B \<or> c = CHR 0x0C \<or> c = CHR 0x0D \<or> c = CHR '' '')"

definition TrimSpace :: "string \<Rightarrow> string" where
  "TrimSpace s = rev (dropWhile isSpace (rev (dropWhile isSpace s)))"

text \<open>\<^verbatim>\<open>strconv.FormatInt(i, 10)\<close>: the decimal digits, after a minus sign when negative.\<close>

function digits :: "nat \<Rightarrow> string" where
  "digits n = (if n < 10 then [''0123456789'' ! n] else digits (n div 10) @ [''0123456789'' ! (n mod 10)])"
  by pat_completeness auto
termination
  by (relation "measure id") auto

definition FormatInt :: "int \<Rightarrow> string" where
  "FormatInt i = (if i < 0 then CHR ''-'' # digits (nat (- i)) else digits (nat i))"

subsection \<open>Response rendering\<close>

text \<open>
  The render strategies that the context builds (the structs of package render), the
  \<^verbatim>\<open>Any\<close> envelope of protobuf, and the pair of code and message that package ecode
  resolves an error to.
\<close>

record Any =
  TypeUrl :: string
  Value :: string

datatype render =
    render_JSON int string any
  | render_MapJSON "string \<rightharpoonup> any"
  | render_XML int string any
  | render_PB int string Any
  | render_Data string "string list"
  | render_String string "any list"
  | render_Redirect int string Request

record Codes =
  Code :: int
  Message :: string

text \<open>
  What the context calls outside of this file, as parameters:
  \<^item> \<open>Cause\<close> is \<^verbatim>\<open>ecode.Cause\<close>, \<open>RequestErr\<close> the code of \<^verbatim>\<open>ecode.RequestErr\<close>;
  \<^item> \<open>Now_Unix\<close> is \<^verbatim>\<open>time.Now().Unix()\<close>, \<open>JSEscapeString\<close> is \<^verbatim>\<open>template.JSEscapeString\<close>;
  \<^item> \<open>WriteContentType\<close> and \<open>Render_body\<close> are the two methods of a render strategy.
    Modelled from the spec: a strategy produces a content-type header and a body, so its
    \<^verbatim>\<open>WriteContentType\<close> acts on the header map alone; its \<^verbatim>\<open>Render\<close> is given
    the writer and may fail, and \<open>Render_body\<close> returns its error, the header map as it
    leaves it, and the calls of \<^verbatim>\<open>WriteHeader\<close> and \<^verbatim>\<open>Write\<close> it makes;
  \<^item> \<open>Write_error\<close> is the error, if any, that \<^verbatim>\<open>Write\<close> returns for these bytes;
  \<^item> \<open>Marshal\<close> and \<open>MessageName\<close> are those of package proto, on opaque messages;
  \<^item> \<open>Default_binding\<close> is \<^verbatim>\<open>binding.Default\<close>, \<open>Binding_Bind\<close> the method \<^verbatim>\<open>Bind\<close> of
    a binding (bindings and target objects are opaque references);
  \<^item> \<open>err_Error\<close> is the method \<^verbatim>\<open>Error()\<close> of an error;
  \<^item> \<open>Translate\<close> gives the translated messages of a collection of field errors, in the
    order in which the \<^verbatim>\<open>range\<close> statement visits the translation map;
  \<^item> \<open>metadata_RemoteIP\<close> is \<^verbatim>\<open>metadata.String(c, metadata.RemoteIP)\<close>.
\<close>

record env =
  Cause :: "error option \<Rightarrow> Codes"
  RequestErr :: int
  Now_Unix :: int
  JSEscapeString :: "string \<Rightarrow> string"
  WriteContentType :: "render \<Rightarrow> Values \<Rightarrow> Values"
  Render_body :: "render \<Rightarrow> ResponseWriter \<Rightarrow> error option \<times> Values \<times> wcall list"
  Write_error :: "ResponseWriter \<Rightarrow> string \<Rightarrow> error option"
  Marshal :: "nat \<Rightarrow> error + string"
  MessageName :: "nat \<Rightarrow> string"
  Default_binding :: "string \<Rightarrow> string \<Rightarrow> nat"
  Binding_Bind :: "nat \<Rightarrow> Request \<Rightarrow> nat \<Rightarrow> error option"
  err_Error :: "error \<Rightarrow> string"
  Translate :: "nat list \<Rightarrow> string list"
  metadata_RemoteIP :: "Context \<Rightarrow> string"

definition bodyAllowedForStatus :: "int \<Rightarrow> bool" where
  "bodyAllowedForStatus status =
     (if status \<ge> 100 \<and> status \<le> 199 then False
      else if status = 204 then False
      else if status = 304 then False
      else True)"

definition Writer_Write :: "env \<Rightarrow> string \<Rightarrow> ResponseWriter \<Rightarrow> error option \<times> ResponseWriter" where
  "Writer_Write e b w = (Write_error e w b, w\<lparr>wrote := wrote w @ [Write b]\<rparr>)"

text \<open>\<^verbatim>\<open>r.Render(c.Writer)\<close>: the calls of the strategy are added to those made before.\<close>

definition call_Render :: "env \<Rightarrow> render \<Rightarrow> ResponseWriter \<Rightarrow> error option \<times> ResponseWriter" where
  "call_Render e r w =
     (case Render_body e r w of (err, h, calls) \<Rightarrow> (err, \<lparr>header = h, wrote = wrote w @ calls\<rparr>))"

definition Render :: "env \<Rightarrow> int \<Rightarrow> render \<Rightarrow> Context \<Rightarrow> Context" where
  "Render e code r c =
     (let c1 = c\<lparr>Writer := (Writer c)\<lparr>header := WriteContentType e r (header (Writer c))\<rparr>\<rparr>;
          c2 = (if code > 0 then Status code c1 else c1)
      in if \<not> bodyAllowedForStatus code then c2
         else
           let cb = JSEscapeString e (Values_Get (Form (Request c2)) ''callback'');
               jsonp = (cb \<noteq> []);
               c3 = (if jsonp
                     then c2\<lparr>Writer := snd (Writer_Write e ''('' (snd (Writer_Write e cb (Writer c2))))\<rparr>
                     else c2)
           in case call_Render e r (Writer c3) of
                (Some err, w) \<Rightarrow> c3\<lparr>Writer := w, Error := Some err\<rparr>
              | (None, w) \<Rightarrow>
                  if jsonp
                  then (case Writer_Write e '')'' w of
                          (Some err, w') \<Rightarrow> c3\<lparr>Writer := w', Error := Some (WithStack err)\<rparr>
                        | (None, w') \<Rightarrow> c3\<lparr>Writer := w'\<rparr>)
                  else c3\<lparr>Writer := w\<rparr>)"

definition writeStatusCode :: "ResponseWriter \<Rightarrow> int \<Rightarrow> ResponseWriter" where
  "writeStatusCode w ecode = w\<lparr>header := Values_Set (header w) ''kratos-status-code'' (FormatInt ecode)\<rparr>"

definition JSON :: "env \<Rightarrow> any \<Rightarrow> error option \<Rightarrow> Context \<Rightarrow> Context" where
  "JSON e data err c =
     (let code = 200;
          c1 = c\<lparr>Error := err\<rparr>;
          bcode = Cause e err;
          c2 = c1\<lparr>Writer := writeStatusCode (Writer c1) (Code bcode)\<rparr>;
          cc = Split (Message bcode) ''||''
      in if length cc > 1
         then Render e code
                (render_MapJSON (Map.empty(''ret'' \<mapsto> VInt (Code bcode), ''message'' \<mapsto> VString (cc ! 1),
                   ''code'' \<mapsto> VString (cc ! 0), ''now'' \<mapsto> VInt64 (Now_Unix e), ''data'' \<mapsto> data))) c2
         else Render e code (render_JSON (Code bcode) (Message bcode) data) c2)"

text \<open>
  \<open>JSONMap\<close> writes into the map of its caller: the result is the context and that map
  after the call. A nil map (\<open>None\<close>) makes the first assignment panic.
\<close>

definition JSONMap :: "env \<Rightarrow> (string \<rightharpoonup> any) option \<Rightarrow> error option \<Rightarrow> Context \<Rightarrow>
    panic + Context \<times> (string \<rightharpoonup> any)" where
  "JSONMap e data err c =
     (let code = 200;
          c1 = c\<lparr>Error := err\<rparr>;
          bcode = Cause e err;
          c2 = c1\<lparr>Writer := writeStatusCode (Writer c1) (Code bcode)\<rparr>
      in case data of
           None \<Rightarrow> Inl NilMapAssignment
         | Some m \<Rightarrow>
             let m1 = m(''code'' \<mapsto> VInt (Code bcode));
                 m2 = (case m1 ''message'' of None \<Rightarrow> m1(''message'' \<mapsto> VString (Message bcode)) | Some _ \<Rightarrow> m1)
             in Inr (Render e code (render_MapJSON m2) c2, m2))"

definition XML :: "env \<Rightarrow> any \<Rightarrow> error option \<Rightarrow> Context \<Rightarrow> Context" where
  "XML e data err c =
     (let code = 200;
          c1 = c\<lparr>Error := err\<rparr>;
          bcode = Cause e err;
          c2 = c1\<lparr>Writer := writeStatusCode (Writer c1) (Code bcode)\<rparr>
      in Render e code (render_XML (Code bcode) (Message bcode) data) c2)"

definition Protobuf :: "env \<Rightarrow> nat option \<Rightarrow> error option \<Rightarrow> Context \<Rightarrow> Context" where
  "Protobuf e data err c =
     (let code = 200;
          c1 = c\<lparr>Error := err\<rparr>;
          bcode = Cause e err;
          any0 = \<lparr>TypeUrl = [], Value = []\<rparr>;
          finish = (\<lambda>a. Render e code (render_PB (Code bcode) (Message bcode) a)
                           (c1\<lparr>Writer := writeStatusCode (Writer c1) (Code bcode)\<rparr>))
      in case data of
           None \<Rightarrow> finish any0
         | Some m \<Rightarrow>
             (case Marshal e m of
                Inl err' \<Rightarrow> c1\<lparr>Error := Some (WithStack err')\<rparr>
              | Inr bytes \<Rightarrow>
                  finish (any0\<lparr>TypeUrl := ''type.googleapis.com/'' @ MessageName e m, Value := bytes\<rparr>)))"

definition Bytes :: "env \<Rightarrow> int \<Rightarrow> string \<Rightarrow> string list \<Rightarrow> Context \<Rightarrow> Context" where
  "Bytes e code contentType data c = Render e code (render_Data contentType data) c"

definition String_body :: "env \<Rightarrow> int \<Rightarrow> string \<Rightarrow> any list \<Rightarrow> Context \<Rightarrow> Context" where
  "String_body e code format vs c = Render e code (render_String format vs) c"

definition Redirect :: "env \<Rightarrow> int \<Rightarrow> string \<Rightarrow> Context \<Rightarrow> Context" where
  "Redirect e code location c = Render e (-1) (render_Redirect code location (Request c)) c"

subsection \<open>Binding\<close>

definition mustBindWith :: "env \<Rightarrow> nat \<Rightarrow> nat \<Rightarrow> Context \<Rightarrow> error option \<times> Context" where
  "mustBindWith e obj b c =
     (case Binding_Bind e b (Request c) obj of
        None \<Rightarrow> (None, c)
      | Some err \<Rightarrow>
          let c1 = c\<lparr>Error := Some (Ecode (RequestErr e)), ErrorMsg := err_Error e err\<rparr>;
              message = (case err of
                           ValidationErrors errs \<Rightarrow> foldl (\<lambda>m v. m @ v @ '';'') [] (Translate e errs)
                         | _ \<Rightarrow> err_Error e err);
              c2 = Render e 200 (render_JSON (RequestErr e) message VNil) c1
          in (Some err, Abort c2))"

definition BindWith :: "env \<Rightarrow> nat \<Rightarrow> nat \<Rightarrow> Context \<Rightarrow> error option \<times> Context" where
  "BindWith e obj b c = mustBindWith e obj b c"

definition Bind :: "env \<Rightarrow> nat \<Rightarrow> Context \<Rightarrow> error option \<times> Context" where
  "Bind e obj c =
     (let b = Default_binding e (Method (Request c)) (Values_Get (Header (Request c)) ''Content-Type'')
      in mustBindWith e obj b c)"

subsection \<open>Remote IP\<close>


subsection \<open>Example values\<close>

text \<open>A context with every field at its zero value, and one example of the collaborators.\<close>

definition ctx0 :: Context where
  "ctx0 = \<lparr>ctx = None,
     Request = \<lparr>Method = [], Header = Map.empty, Form = Map.empty\<rparr>,
     Writer = \<lparr>header = Map.empty, wrote = []\<rparr>,
     index = 0, handlers = [], Keys = None, Error = None, ErrorMsg = [], method_field = [],
     engine = 0, RoutePath = [], Params = \<lparr>array = [], len = 0\<rparr>\<rparr>"

definition env0 :: env where
  "env0 = \<lparr>
     Cause = (\<lambda>err. case err of
                 None \<Rightarrow> \<lparr>Code = 0, Message = ''0''\<rparr>
               | Some (Ecode i) \<Rightarrow> \<lparr>Code = i, Message = ''4001||Invalid input''\<rparr>
               | Some _ \<Rightarrow> \<lparr>Code = -500, Message = ''-500''\<rparr>),
     RequestErr = -400,
     Now_Unix = 1700000000,
     JSEscapeString = (\<lambda>s. s),
     WriteContentType = (\<lambda>r h. case h ''Content-Type'' of None \<Rightarrow> h(''Content-Type'' \<mapsto> [''text/plain'']) | Some _ \<Rightarrow> h),
     Render_body = (\<lambda>r w. (None, header w, [Write (case r of render_JSON code m d \<Rightarrow> m | _ \<Rightarrow> ''body'')])),
     Write_error = (\<lambda>w b. None),
     Marshal = (\<lambda>m. if m = 0 then Inl (ErrorString ''marshal'') else Inr ''bytes''),
     MessageName = (\<lambda>m. ''msg''),
     Default_binding = (\<lambda>m ct. 0),
     Binding_Bind = (\<lambda>b r obj. if obj = 0 then None
                       else if obj = 1 then Some (ErrorString ''bad'')
                       else Some (ValidationErrors [1, 2])),
     err_Error = (\<lambda>er. case er of ErrorString s \<Rightarrow> s | _ \<Rightarrow> ''invalid''),
     Translate = map (\<lambda>f. ''required''),
     metadata_RemoteIP = (\<lambda>c. [])\<rparr>"

section \<open>The handler chain\<close>















section \<open>Context creation and the key/value store\<close>

text \<open>\<open>reset\<close> leaves the request, the writer and the engine as they are: its caller sets them.\<close>

lemma reset_keeps_handles:
  "Request (reset c) = Request c \<and> Writer (reset c) = Writer c \<and> engine (reset c) = engine c"
  by (simp add: reset_def)

text \<open>
  Claim C6. After \<open>reset\<close> the embedded context is nil, the index is -1 (below zero, so the
  context is not aborted), the handler list, the key/value map, the error, the error
  message, the method and the route path are empty, the route parameters have length zero
  and show no entry, and their capacity is the one they had. Every getter of the key/value
  store returns its zero value for every key.
\<close>

theorem reset_clears_request_state:
  "ctx (reset c) = None \<and> index (reset c) = -1 \<and> index (reset c) < 0 \<and> \<not> IsAborted (reset c) \<and>
   handlers (reset c) = [] \<and> Keys (reset c) = None \<and> Error (reset c) = None \<and>
   ErrorMsg (reset c) = [] \<and> method_field (reset c) = [] \<and> RoutePath (reset c) = [] \<and>
   len (Params (reset c)) = 0 \<and> elems (Params (reset c)) = [] \<and>
   cap (Params (reset c)) = cap (Params c) \<and>
   Get (reset c) key = (VNil, False) \<and> GetString (reset c) key = [] \<and>
   GetBool (reset c) key = False \<and> GetInt (reset c) key = 0 \<and> GetInt64 (reset c) key = 0 \<and>
   GetUint (reset c) key = 0 \<and> GetUint64 (reset c) key = 0 \<and> GetFloat64 (reset c) key = 0"
  by (simp add: reset_def IsAborted_def abortIndex_def elems_def cap_def Get_def GetString_def
      GetBool_def GetInt_def GetInt64_def GetUint_def GetUint64_def GetFloat64_def)

text \<open>
  Claim C9. Each typed accessor returns the stored value when the key is present with a
  value of exactly the requested dynamic type, and the zero value of its type in every
  other case (no map, no such key, nil, or another dynamic type); its result type has no
  room for an error. After \<^verbatim>\<open>Set("x", 5)\<close>, \<open>GetString\<close> gives the empty string and
  \<open>GetInt\<close> gives 5.
\<close>

theorem typed_accessors:
  "GetString c key = (case Keys c of None \<Rightarrow> [] | Some m \<Rightarrow> (case m key of Some (VString s) \<Rightarrow> s | _ \<Rightarrow> [])) \<and>
   GetBool c key = (case Keys c of None \<Rightarrow> False | Some m \<Rightarrow> (case m key of Some (VBool b) \<Rightarrow> b | _ \<Rightarrow> False)) \<and>
   GetInt c key = (case Keys c of None \<Rightarrow> 0 | Some m \<Rightarrow> (case m key of Some (VInt i) \<Rightarrow> i | _ \<Rightarrow> 0)) \<and>
   GetInt64 c key = (case Keys c of None \<Rightarrow> 0 | Some m \<Rightarrow> (case m key of Some (VInt64 i) \<Rightarrow> i | _ \<Rightarrow> 0)) \<and>
   GetUint c key = (case Keys c of None \<Rightarrow> 0 | Some m \<Rightarrow> (case m key of Some (VUint u) \<Rightarrow> u | _ \<Rightarrow> 0)) \<and>
   GetUint64 c key = (case Keys c of None \<Rightarrow> 0 | Some m \<Rightarrow> (case m key of Some (VUint64 u) \<Rightarrow> u | _ \<Rightarrow> 0)) \<and>
   GetFloat64 c key = (case Keys c of None \<Rightarrow> 0 | Some m \<Rightarrow> (case m key of Some (VFloat64 f) \<Rightarrow> f | _ \<Rightarrow> 0)) \<and>
   Get (Set_key key v c) key = (v, True) \<and>
   GetString (Set_key ''x'' (VInt 5) c) ''x'' = [] \<and>
   GetInt (Set_key ''x'' (VInt 5) c) ''x'' = 5"
  by (simp add: Get_def GetString_def GetBool_def GetInt_def GetInt64_def GetUint_def
      GetUint64_def GetFloat64_def Set_key_def split: option.split any.split)

theorem typed_accessors_witness:
  "GetInt (Set_key ''n'' (VInt 7) ctx0) ''n'' = 7 \<and> GetInt64 (Set_key ''n'' (VInt 7) ctx0) ''n'' = 0 \<and>
   GetString (Set_key ''n'' (VInt 7) ctx0) ''missing'' = []"
  using typed_accessors [of "Set_key ''n'' (VInt 7) ctx0" "''n''"]
    typed_accessors [of "Set_key ''n'' (VInt 7) ctx0" "''missing''"]
  by (simp add: Set_key_def ctx0_def)

section \<open>Rendering\<close>

lemma bodyAllowedForStatus_iff:
  "bodyAllowedForStatus code \<longleftrightarrow> \<not> ((100 \<le> code \<and> code \<le> 199) \<or> code = 204 \<or> code = 304)"
  by (simp add: bodyAllowedForStatus_def)

lemma Render_no_body:
  assumes "\<not> bodyAllowedForStatus code"
  shows "Render e code r c =
     c\<lparr>Writer := \<lparr>header = WriteContentType e r (header (Writer c)),
                   wrote = wrote (Writer c) @ [WriteHeader code]\<rparr>\<rparr>"
proof -
  have "0 < code" using assms by (auto simp: bodyAllowedForStatus_def split: if_splits)
  then show ?thesis using assms by (simp add: Render_def Status_def)
qed

lemma Render_frame:
  "index (Render e code r c) = index c \<and> handlers (Render e code r c) = handlers c \<and>
   ErrorMsg (Render e code r c) = ErrorMsg c \<and> Keys (Render e code r c) = Keys c \<and>
   Request (Render e code r c) = Request c"
  by (simp add: Render_def Let_def Status_def split: prod.split option.split)

text \<open>The calls that \<open>Render\<close> adds to the writer, in order.\<close>

lemma Render_wrote:
  "wrote (Writer (Render e code r c)) =
     wrote (Writer c) @ (if 0 < code then [WriteHeader code] else []) @
     (if bodyAllowedForStatus code then
        (let cb = JSEscapeString e (Values_Get (Form (Request c)) ''callback'');
             pre = (if cb \<noteq> [] then [Write cb, Write ''(''] else []);
             res = Render_body e r
                     ((Writer c)\<lparr>header := WriteContentType e r (header (Writer c)),
                        wrote := wrote (Writer c) @ (if 0 < code then [WriteHeader code] else []) @ pre\<rparr>)
         in pre @ snd (snd res) @ (if fst res = None \<and> cb \<noteq> [] then [Write '')''] else []))
      else [])"
  by (auto simp: Render_def Let_def Status_def Writer_Write_def call_Render_def
      split: prod.splits option.splits)

lemma Render_wrote_prefix:
  "0 < code \<Longrightarrow> prefix (wrote (Writer c) @ [WriteHeader code]) (wrote (Writer (Render e code r c)))"
  by (simp add: Render_wrote)

lemma Render_no_status_of_its_own:
  assumes "code \<le> 0" "WriteHeader x \<in> set (wrote (Writer (Render e code r c)))"
  shows "WriteHeader x \<in> set (wrote (Writer c)) \<or> (\<exists>w. WriteHeader x \<in> set (snd (snd (Render_body e r w))))"
  using assms by (auto simp: Render_wrote Let_def split: if_splits)

text \<open>
  Claim C8. For a positive code the first call that \<open>Render\<close> makes on the writer is
  \<^verbatim>\<open>WriteHeader(code)\<close>. For a code that is not positive \<open>Render\<close> writes no status
  line: a status line found afterwards was there before or comes from the strategy. For a
  code from 100 to 199, 204 or 304 the context after \<open>Render\<close> is the one before it with the
  header map as the strategy's \<^verbatim>\<open>WriteContentType\<close> leaves it and the one call
  \<^verbatim>\<open>WriteHeader(code)\<close> added: no call of \<^verbatim>\<open>Write\<close>, and the strategy's
  \<^verbatim>\<open>Render\<close> is not run.
\<close>

theorem Render_status_and_body:
  "(0 < code \<longrightarrow> prefix (wrote (Writer c) @ [WriteHeader code]) (wrote (Writer (Render e code r c)))) \<and>
   (code \<le> 0 \<longrightarrow>
      (\<forall>x. WriteHeader x \<in> set (wrote (Writer (Render e code r c))) \<longrightarrow>
         WriteHeader x \<in> set (wrote (Writer c)) \<or>
         (\<exists>w. WriteHeader x \<in> set (snd (snd (Render_body e r w)))))) \<and>
   ((100 \<le> code \<and> code \<le> 199) \<or> code = 204 \<or> code = 304 \<longrightarrow>
      Render e code r c =
        c\<lparr>Writer := \<lparr>header = WriteContentType e r (header (Writer c)),
                      wrote = wrote (Writer c) @ [WriteHeader code]\<rparr>\<rparr>)"
  using Render_wrote_prefix [of code c e r] Render_no_status_of_its_own [of code _ e r c]
    Render_no_body [of code e r c] bodyAllowedForStatus_iff [of code]
  by blast

theorem Render_status_and_body_witness:
  "Render env0 204 (render_JSON 0 ''0'' VNil) ctx0 =
     ctx0\<lparr>Writer := \<lparr>header = [''Content-Type'' \<mapsto> [''text/plain'']], wrote = [WriteHeader 204]\<rparr>\<rparr> \<and>
   (\<forall>x. WriteHeader x \<notin> set (wrote (Writer (Render env0 (-1) (render_Redirect 302 ''/'' (Request ctx0)) ctx0))))"
  using Render_status_and_body [of 204 ctx0 env0 "render_JSON 0 ''0'' VNil"]
    Render_status_and_body [of "-1" ctx0 env0 "render_Redirect 302 ''/'' (Request ctx0)"]
  by (simp add: env0_def ctx0_def)

section \<open>Splitting the business message\<close>

lemma Split_aux_nonempty: "Split_aux sep acc s \<noteq> []"
  by (induction sep acc s rule: Split_aux.induct) (auto simp: Split_aux.simps)

lemma Split_aux_none:
  "\<not> sublist sep s \<Longrightarrow> Split_aux sep acc s = [acc @ s]"
proof (induction s arbitrary: acc)
  case Nil
  then show ?case by (simp add: Split_aux.simps)
next
  case (Cons c cs)
  then have "\<not> prefix sep (c # cs)" "\<not> sublist sep cs"
    by (auto simp: sublist_Cons_right)
  then show ?case using Cons.IH[of "acc @ [c]"] by (simp add: Split_aux.simps)
qed

lemma not_sublist_butlast: "sep \<noteq> [] \<Longrightarrow> \<not> sublist sep (butlast sep)"
  by (metis sublist_length_le length_butlast diff_less length_greater_0_conv less_one not_le)

lemma Split_aux_first:
  assumes "sep \<noteq> []" "sublist sep s"
  shows "\<exists>a s'. s = a @ sep @ s' \<and> \<not> sublist sep (a @ butlast sep) \<and>
          Split_aux sep acc s = (acc @ a) # Split_aux sep [] s'"
  using assms(2)
proof (induction s arbitrary: acc)
  case Nil
  then show ?case using assms(1) by simp
next
  case (Cons c cs)
  show ?case
  proof (cases "prefix sep (c # cs)")
    case True
    then obtain s' where s': "c # cs = sep @ s'" by (auto simp: prefix_def)
    then have "drop (length sep) (c # cs) = s'" by (metis append_eq_conv_conj)
    then have "Split_aux sep acc (c # cs) = (acc @ []) # Split_aux sep [] s'"
      using True assms(1) by (simp add: Split_aux.simps)
    then show ?thesis using s' not_sublist_butlast[OF assms(1)]
      by (metis append_Nil)
  next
    case False
    then have "sublist sep cs" using Cons.prems by (simp add: sublist_Cons_right)
    from Cons.IH[OF this, of "acc @ [c]"] obtain a s' where
      a: "cs = a @ sep @ s'" "\<not> sublist sep (a @ butlast sep)"
         "Split_aux sep (acc @ [c]) cs = ((acc @ [c]) @ a) # Split_aux sep [] s'" by blast
    have "prefix (c # a @ butlast sep) (c # cs)"
      using a(1) by (metis Cons_prefix_Cons append_butlast_last_id assms(1) prefixI append.assoc same_prefix_prefix)
    then have np: "\<not> prefix sep (c # a @ butlast sep)"
      using False prefix_order.trans by blast
    have "\<not> sublist sep ((c # a) @ butlast sep)"
      using np a(2) by (simp add: sublist_Cons_right)
    moreover have "Split_aux sep acc (c # cs) = (acc @ (c # a)) # Split_aux sep [] s'"
      using False a(3) by (simp add: Split_aux.simps)
    moreover have "c # cs = (c # a) @ sep @ s'" using a(1) by simp
    ultimately show ?thesis by blast
  qed
qed
lemma Split_length_iff:
  "sep \<noteq> [] \<Longrightarrow> 1 < length (Split s sep) \<longleftrightarrow> sublist sep s"
proof
  assume sep: "sep \<noteq> []" and len: "1 < length (Split s sep)"
  show "sublist sep s"
  proof (rule ccontr)
    assume "\<not> sublist sep s"
    then have "Split_aux sep [] s = [s]" using Split_aux_none[of sep s "[]"] by simp
    then show False using len sep by (simp add: Split_def)
  qed
next
  assume sep: "sep \<noteq> []" and "sublist sep s"
  from Split_aux_first[OF this, of "[]"] obtain a s' where
    "Split_aux sep [] s = a # Split_aux sep [] s'" by auto
  then show "1 < length (Split s sep)"
    using sep Split_aux_nonempty[of sep "[]" s'] by (cases "Split_aux sep [] s'") (auto simp: Split_def)
qed

lemma Split_first_two:
  assumes "sep \<noteq> []" "sublist sep s"
  shows "\<exists>a b rest tail. Split s sep = a # b # rest \<and> s = a @ sep @ b @ tail \<and>
           \<not> sublist sep (a @ butlast sep) \<and>
           ((tail = [] \<and> rest = [] \<and> \<not> sublist sep b) \<or>
            (prefix sep tail \<and> \<not> sublist sep (b @ butlast sep)))"
proof -
  from Split_aux_first[OF assms, of "[]"] obtain a s' where
    a: "s = a @ sep @ s'" "\<not> sublist sep (a @ butlast sep)"
       "Split_aux sep [] s = a # Split_aux sep [] s'" by auto
  show ?thesis
  proof (cases "sublist sep s'")
    case True
    from Split_aux_first[OF assms(1) True, of "[]"] obtain b s'' where
      b: "s' = b @ sep @ s''" "\<not> sublist sep (b @ butlast sep)"
         "Split_aux sep [] s' = b # Split_aux sep [] s''" by auto
    have "Split s sep = a # b # Split_aux sep [] s''"
      using assms(1) a(3) b(3) by (simp add: Split_def)
    moreover have "s = a @ sep @ b @ (sep @ s'')" using a(1) b(1) by simp
    ultimately show ?thesis using a(2) b(2) by (metis prefixI)
  next
    case False
    then have "Split_aux sep [] s' = [s']" using Split_aux_none[of sep s' "[]"] by simp
    then have "Split s sep = a # s' # []" using assms(1) a(3) by (simp add: Split_def)
    moreover have "s = a @ sep @ s' @ []" using a(1) by simp
    ultimately show ?thesis using a(2) False by blast
  qed
qed

text \<open>
  Claim C5. If the separator \<^verbatim>\<open>||\<close> occurs in the resolved message, \<open>JSON\<close> renders
  with status 200 the map with \<^verbatim>\<open>ret\<close> the numeric code, \<^verbatim>\<open>code\<close> the text \<open>a\<close> before
  the first separator, \<^verbatim>\<open>message\<close> the text \<open>b\<close> after it up to the next separator or
  the end, \<^verbatim>\<open>now\<close> the Unix time and \<^verbatim>\<open>data\<close> the payload. Otherwise it renders the
  envelope of the code, the message and the payload. In both cases the error is stored
  and the status header is written first.
\<close>

theorem JSON_legacy_or_standard:
  "(sublist ''||'' (Message (Cause e err)) \<longrightarrow>
      (\<exists>a b rest tail.
         Split (Message (Cause e err)) ''||'' = a # b # rest \<and>
         Message (Cause e err) = a @ ''||'' @ b @ tail \<and>
         \<not> sublist ''||'' (a @ ''|'') \<and>
         ((tail = [] \<and> rest = [] \<and> \<not> sublist ''||'' b) \<or> (prefix ''||'' tail \<and> \<not> sublist ''||'' (b @ ''|''))) \<and>
         JSON e data err c =
           Render e 200
             (render_MapJSON (Map.empty(''ret'' \<mapsto> VInt (Code (Cause e err)), ''message'' \<mapsto> VString b,
                ''code'' \<mapsto> VString a, ''now'' \<mapsto> VInt64 (Now_Unix e), ''data'' \<mapsto> data)))
             (c\<lparr>Error := err, Writer := writeStatusCode (Writer c) (Code (Cause e err))\<rparr>))) \<and>
   (\<not> sublist ''||'' (Message (Cause e err)) \<longrightarrow>
      JSON e data err c =
        Render e 200 (render_JSON (Code (Cause e err)) (Message (Cause e err)) data)
          (c\<lparr>Error := err, Writer := writeStatusCode (Writer c) (Code (Cause e err))\<rparr>))"
proof (intro conjI impI)
  assume sub: "sublist ''||'' (Message (Cause e err))"
  have ne: "''||'' \<noteq> []" by simp
  from Split_first_two[OF ne sub] obtain a b rest tail where
    s: "Split (Message (Cause e err)) ''||'' = a # b # rest"
       "Message (Cause e err) = a @ ''||'' @ b @ tail"
       "\<not> sublist ''||'' (a @ butlast ''||'')"
       "(tail = [] \<and> rest = [] \<and> \<not> sublist ''||'' b) \<or>
        (prefix ''||'' tail \<and> \<not> sublist ''||'' (b @ butlast ''||''))" by blast
  have "JSON e data err c =
           Render e 200
             (render_MapJSON (Map.empty(''ret'' \<mapsto> VInt (Code (Cause e err)), ''message'' \<mapsto> VString b,
                ''code'' \<mapsto> VString a, ''now'' \<mapsto> VInt64 (Now_Unix e), ''data'' \<mapsto> data)))
             (c\<lparr>Error := err, Writer := writeStatusCode (Writer c) (Code (Cause e err))\<rparr>)"
    using s(1) by (simp add: JSON_def Let_def)
  then show "\<exists>a b rest tail.
         Split (Message (Cause e err)) ''||'' = a # b # rest \<and>
         Message (Cause e err) = a @ ''||'' @ b @ tail \<and>
         \<not> sublist ''||'' (a @ ''|'') \<and>
         ((tail = [] \<and> rest = [] \<and> \<not> sublist ''||'' b) \<or> (prefix ''||'' tail \<and> \<not> sublist ''||'' (b @ ''|''))) \<and>
         JSON e data err c =
           Render e 200
             (render_MapJSON (Map.empty(''ret'' \<mapsto> VInt (Code (Cause e err)), ''message'' \<mapsto> VString b,
                ''code'' \<mapsto> VString a, ''now'' \<mapsto> VInt64 (Now_Unix e), ''data'' \<mapsto> data)))
             (c\<lparr>Error := err, Writer := writeStatusCode (Writer c) (Code (Cause e err))\<rparr>)"
    using s by (intro exI[of _ a] exI[of _ b] exI[of _ rest] exI[of _ tail]) simp
next
  assume "\<not> sublist ''||'' (Message (Cause e err))"
  then have "\<not> 1 < length (Split (Message (Cause e err)) ''||'')"
    using Split_length_iff[of "''||''" "Message (Cause e err)"] by simp
  then show "JSON e data err c =
        Render e 200 (render_JSON (Code (Cause e err)) (Message (Cause e err)) data)
          (c\<lparr>Error := err, Writer := writeStatusCode (Writer c) (Code (Cause e err))\<rparr>)"
    by (simp add: JSON_def Let_def)
qed

lemma sublist_bars_example: "sublist ''||'' ''4001||Invalid input''"
  by (rule sublist_appendI [of "''||''" "''4001''" "''Invalid input''", simplified])

lemma not_sublist_bars_example: "\<not> sublist ''||'' ''0''"
  by (simp add: sublist_Cons_right)

theorem JSON_legacy_or_standard_witness:
  "sublist ''||'' (Message (Cause env0 (Some (Ecode 4001)))) \<and>
   JSON env0 (VString ''payload'') (Some (Ecode 4001)) ctx0 =
     Render env0 200
       (render_MapJSON (Map.empty(''ret'' \<mapsto> VInt 4001, ''message'' \<mapsto> VString ''Invalid input'',
          ''code'' \<mapsto> VString ''4001'', ''now'' \<mapsto> VInt64 1700000000, ''data'' \<mapsto> VString ''payload'')))
       (ctx0\<lparr>Error := Some (Ecode 4001), Writer := writeStatusCode (Writer ctx0) 4001\<rparr>) \<and>
   \<not> sublist ''||'' (Message (Cause env0 None)) \<and>
   JSON env0 (VString ''payload'') None ctx0 =
     Render env0 200 (render_JSON 0 ''0'' (VString ''payload''))
       (ctx0\<lparr>Error := None, Writer := writeStatusCode (Writer ctx0) 0\<rparr>)"
proof -
  have m: "Message (Cause env0 (Some (Ecode 4001))) = ''4001||Invalid input''"
    "Code (Cause env0 (Some (Ecode 4001))) = 4001"
    "Message (Cause env0 None) = ''0''" "Code (Cause env0 None) = 0" "Now_Unix env0 = 1700000000"
    by (simp_all add: env0_def)
  have sp: "Split ''4001||Invalid input'' ''||'' = [''4001'', ''Invalid input'']"
    by (simp add: Split_def Split_aux.simps)
  show ?thesis
    using JSON_legacy_or_standard [of env0 "Some (Ecode 4001)" "VString ''payload''" ctx0]
      JSON_legacy_or_standard [of env0 None "VString ''payload''" ctx0]
      sublist_bars_example not_sublist_bars_example
    by (auto simp: m sp)
qed

section \<open>The status header of the rendering entry points\<close>

lemma writeStatusCode_header:
  "Values_Get (header (writeStatusCode w code)) ''kratos-status-code'' = FormatInt code \<and>
   wrote (writeStatusCode w code) = wrote w"
  by (simp add: writeStatusCode_def Values_Get_def Values_Set_def)

lemma JSON_is_Render:
  "\<exists>r. JSON e data err c =
     Render e 200 r (c\<lparr>Error := err, Writer := writeStatusCode (Writer c) (Code (Cause e err))\<rparr>)"
  by (auto simp: JSON_def Let_def)

text \<open>A nil map makes \<open>JSONMap\<close> panic at its first assignment.\<close>

lemma JSONMap_nil: "JSONMap e None err c = Inl NilMapAssignment"
  by (simp add: JSONMap_def Let_def)

text \<open>
  Claim C3, as the code has it. \<open>JSON\<close>, \<open>JSONMap\<close>, \<open>XML\<close> and, unless marshalling fails,
  \<open>Protobuf\<close> store the error, write the decimal string of the resolved business code
  into the header \<^verbatim>\<open>kratos-status-code\<close> and then render with HTTP status 200, whatever
  the business code is: the first call they make on the writer is \<^verbatim>\<open>WriteHeader(200)\<close>.
  When marshalling fails, \<open>Protobuf\<close> only records the error. \<open>Bytes\<close> and \<open>String\<close>
  render with the HTTP status their caller gives and \<open>Redirect\<close> with no status of its own
  (the code -1; the status is left to the redirect strategy); these three take no error
  and do not write the header.
\<close>

theorem status_header_and_transport_status:
  "Values_Get (header (writeStatusCode (Writer c) (Code (Cause e err)))) ''kratos-status-code'' =
     FormatInt (Code (Cause e err)) \<and>
   (\<exists>r. JSON e data err c =
      Render e 200 r (c\<lparr>Error := err, Writer := writeStatusCode (Writer c) (Code (Cause e err))\<rparr>)) \<and>
   (\<exists>r m'. JSONMap e (Some m) err c =
      Inr (Render e 200 r (c\<lparr>Error := err, Writer := writeStatusCode (Writer c) (Code (Cause e err))\<rparr>), m')) \<and>
   (\<exists>r. XML e data err c =
      Render e 200 r (c\<lparr>Error := err, Writer := writeStatusCode (Writer c) (Code (Cause e err))\<rparr>)) \<and>
   (\<exists>r. Protobuf e None err c =
      Render e 200 r (c\<lparr>Error := err, Writer := writeStatusCode (Writer c) (Code (Cause e err))\<rparr>)) \<and>
   (\<forall>bytes. Marshal e msg = Inr bytes \<longrightarrow>
      (\<exists>r. Protobuf e (Some msg) err c =
         Render e 200 r (c\<lparr>Error := err, Writer := writeStatusCode (Writer c) (Code (Cause e err))\<rparr>))) \<and>
   (\<forall>er. Marshal e msg = Inl er \<longrightarrow> Protobuf e (Some msg) err c = c\<lparr>Error := Some (WithStack er)\<rparr>) \<and>
   prefix (wrote (Writer c) @ [WriteHeader 200]) (wrote (Writer (JSON e data err c))) \<and>
   prefix (wrote (Writer c) @ [WriteHeader 200]) (wrote (Writer (XML e data err c))) \<and>
   Bytes e code contentType bs c = Render e code (render_Data contentType bs) c \<and>
   String_body e code format vs c = Render e code (render_String format vs) c \<and>
   Redirect e code location c = Render e (-1) (render_Redirect code location (Request c)) c"
proof -
  let ?c = "c\<lparr>Error := err, Writer := writeStatusCode (Writer c) (Code (Cause e err))\<rparr>"
  have w: "wrote (Writer ?c) = wrote (Writer c)" by (simp add: writeStatusCode_def)
  have j: "\<exists>r. JSON e data err c = Render e 200 r ?c" by (rule JSON_is_Render)
  have x: "XML e data err c = Render e 200 (render_XML (Code (Cause e err)) (Message (Cause e err)) data) ?c"
    by (simp add: XML_def Let_def)
  have pj: "prefix (wrote (Writer c) @ [WriteHeader 200]) (wrote (Writer (JSON e data err c)))"
    using j Render_wrote_prefix[of 200 ?c e] w by auto
  have px: "prefix (wrote (Writer c) @ [WriteHeader 200]) (wrote (Writer (XML e data err c)))"
    using x Render_wrote_prefix[of 200 ?c e] w by auto
  have jm: "\<exists>r m'. JSONMap e (Some m) err c = Inr (Render e 200 r ?c, m')"
    by (auto simp: JSONMap_def Let_def)
  have p0: "\<exists>r. Protobuf e None err c = Render e 200 r ?c"
    by (auto simp: Protobuf_def Let_def)
  have p1: "\<forall>bytes. Marshal e msg = Inr bytes \<longrightarrow> (\<exists>r. Protobuf e (Some msg) err c = Render e 200 r ?c)"
    by (auto simp: Protobuf_def Let_def)
  have p2: "\<forall>er. Marshal e msg = Inl er \<longrightarrow> Protobuf e (Some msg) err c = c\<lparr>Error := Some (WithStack er)\<rparr>"
    by (simp add: Protobuf_def Let_def)
  have h: "Values_Get (header (writeStatusCode (Writer c) (Code (Cause e err)))) ''kratos-status-code'' =
     FormatInt (Code (Cause e err))" by (simp add: writeStatusCode_header)
  have b: "Bytes e code contentType bs c = Render e code (render_Data contentType bs) c"
    by (simp add: Bytes_def)
  have st: "String_body e code format vs c = Render e code (render_String format vs) c"
    by (simp add: String_body_def)
  have rd: "Redirect e code location c = Render e (-1) (render_Redirect code location (Request c)) c"
    by (simp add: Redirect_def)
  show ?thesis using h j jm x p0 p1 p2 pj px b st rd by blast
qed

theorem status_header_and_transport_status_witness:
  "Marshal env0 1 = Inr ''bytes'' \<and>
   Protobuf env0 (Some 1) (Some (Ecode (-400))) ctx0 =
     ctx0\<lparr>Error := Some (Ecode (-400)),
       Writer := \<lparr>header = [''kratos-status-code'' \<mapsto> [''-400''], ''Content-Type'' \<mapsto> [''text/plain'']],
                  wrote = [WriteHeader 200, Write ''body'']\<rparr>\<rparr> \<and>
   Marshal env0 0 = Inl (ErrorString ''marshal'') \<and>
   Protobuf env0 (Some 0) (Some (Ecode (-400))) ctx0 = ctx0\<lparr>Error := Some (WithStack (ErrorString ''marshal''))\<rparr>"
proof -
  have r: "Protobuf env0 (Some 1) (Some (Ecode (-400))) ctx0 =
     ctx0\<lparr>Error := Some (Ecode (-400)),
       Writer := \<lparr>header = [''kratos-status-code'' \<mapsto> [''-400''], ''Content-Type'' \<mapsto> [''text/plain'']],
                  wrote = [WriteHeader 200, Write ''body'']\<rparr>\<rparr>"
    by (simp add: Protobuf_def Let_def env0_def ctx0_def Render_def Status_def bodyAllowedForStatus_def
        Values_Get_def Values_Set_def call_Render_def writeStatusCode_def FormatInt_def)
  show ?thesis
    using status_header_and_transport_status [of ctx0 env0 "Some (Ecode (-400))" _ _ 0]
      status_header_and_transport_status [of ctx0 env0 "Some (Ecode (-400))" _ _ 1] r
    by (simp add: env0_def)
qed

text \<open>
  \<open>Bytes\<close> with status 404 answers 404 and leaves the header \<^verbatim>\<open>kratos-status-code\<close> unset.
\<close>

theorem Bytes_status_counterexample:
  "header (Writer (Bytes env0 404 ''text/plain'' [''x''] ctx0)) ''kratos-status-code'' = None \<and>
   wrote (Writer (Bytes env0 404 ''text/plain'' [''x''] ctx0)) = [WriteHeader 404, Write ''body'']"
  by (simp add: Bytes_def env0_def ctx0_def Render_def Status_def bodyAllowedForStatus_def
      Values_Get_def call_Render_def)

text \<open>
  Claim C10. Given a map, \<open>JSONMap\<close> returns it changed, and the changed map is the one it
  renders: \<^verbatim>\<open>code\<close> is the resolved business code whatever it was before,
  \<^verbatim>\<open>message\<close> is the resolved message only if the map had no such key and the caller's
  entry otherwise, and every other key has the entry it had.
\<close>

theorem JSONMap_mutates_map:
  "\<exists>m'. JSONMap e (Some m) err c =
       Inr (Render e 200 (render_MapJSON m')
              (c\<lparr>Error := err, Writer := writeStatusCode (Writer c) (Code (Cause e err))\<rparr>), m') \<and>
     m' ''code'' = Some (VInt (Code (Cause e err))) \<and>
     m' ''message'' = (case m ''message'' of None \<Rightarrow> Some (VString (Message (Cause e err))) | Some v \<Rightarrow> Some v) \<and>
     (\<forall>k. k \<noteq> ''code'' \<and> k \<noteq> ''message'' \<longrightarrow> m' k = m k)"
  by (cases "m ''message''") (simp_all add: JSONMap_def Let_def)

theorem JSONMap_mutates_map_witness:
  "JSONMap env0 (Some [''message'' \<mapsto> VString ''mine'', ''extra'' \<mapsto> VInt 1, ''code'' \<mapsto> VInt 99]) None ctx0 =
     Inr (Render env0 200
            (render_MapJSON [''message'' \<mapsto> VString ''mine'', ''extra'' \<mapsto> VInt 1, ''code'' \<mapsto> VInt 0])
            (ctx0\<lparr>Error := None, Writer := writeStatusCode (Writer ctx0) 0\<rparr>),
          [''message'' \<mapsto> VString ''mine'', ''extra'' \<mapsto> VInt 1, ''code'' \<mapsto> VInt 0])"
proof -
  let ?m = "[''message'' \<mapsto> VString ''mine'', ''extra'' \<mapsto> VInt 1, ''code'' \<mapsto> VInt 99]"
  from JSONMap_mutates_map [of env0 ?m None ctx0] obtain m' where
    m': "JSONMap env0 (Some ?m) None ctx0 =
       Inr (Render env0 200 (render_MapJSON m')
              (ctx0\<lparr>Error := None, Writer := writeStatusCode (Writer ctx0) (Code (Cause env0 None))\<rparr>), m')"
     "m' ''code'' = Some (VInt (Code (Cause env0 None)))"
     "m' ''message'' = (case ?m ''message'' of None \<Rightarrow> Some (VString (Message (Cause env0 None))) | Some v \<Rightarrow> Some v)"
     "\<forall>k. k \<noteq> ''code'' \<and> k \<noteq> ''message'' \<longrightarrow> m' k = ?m k" by blast
  have c0: "Code (Cause env0 None) = 0" by (simp add: env0_def)
  have "m' = [''message'' \<mapsto> VString ''mine'', ''extra'' \<mapsto> VInt 1, ''code'' \<mapsto> VInt 0]"
  proof
    fix k show "m' k = [''message'' \<mapsto> VString ''mine'', ''extra'' \<mapsto> VInt 1, ''code'' \<mapsto> VInt 0] k"
      using m'(2,3,4) c0 by (cases "k = ''code''"; cases "k = ''message''") simp_all
  qed
  then show ?thesis using m'(1) c0 by simp
qed

section \<open>Binding\<close>

lemma foldl_append_each:
  "foldl (\<lambda>m v. m @ v @ s) acc xs = acc @ concat (map (\<lambda>v. v @ s) xs)"
  by (induction xs arbitrary: acc) simp_all

text \<open>\<open>Render\<close> replaces the error of the context only by an error of the rendering.\<close>

lemma Render_Error:
  "Error (Render e code r c) = Error c \<or>
   (\<exists>er w. Error (Render e code r c) = Some er \<and>
      (fst (Render_body e r w) = Some er \<or> (\<exists>er'. Write_error e w '')'' = Some er' \<and> er = WithStack er')))"
  by (auto simp: Render_def Let_def Status_def Writer_Write_def call_Render_def
      split: prod.splits option.splits) (metis fst_conv)+

text \<open>
  Claim C4. When the decode and validate step of the binding returns no error, \<open>BindWith\<close>
  returns nil and the context is unchanged. When it returns an error, \<open>BindWith\<close> returns
  it, sets the error of the context to the bad-request code and the error message to the
  text of the error, renders with HTTP status 200 the JSON envelope with the bad-request
  code, no data and as message the text of the error or, for a collection of field
  errors, the translated messages one after the other, each followed by the delimiter
  \<^verbatim>\<open>;\<close>, and aborts. Rendering replaces the error of the context only if writing the
  envelope fails. \<open>Bind\<close> is \<open>BindWith\<close> on the binding chosen from the method and the
  content type of the request.
\<close>

theorem Bind_failure_and_success:
  "(Binding_Bind e b (Request c) obj = None \<longrightarrow> BindWith e obj b c = (None, c)) \<and>
   (\<forall>err. Binding_Bind e b (Request c) obj = Some err \<longrightarrow>
      (\<exists>c' message.
         BindWith e obj b c = (Some err, c') \<and>
         message = (case err of
                      ValidationErrors errs \<Rightarrow> concat (map (\<lambda>v. v @ '';'') (Translate e errs))
                    | _ \<Rightarrow> err_Error e err) \<and>
         c' = Abort (Render e 200 (render_JSON (RequestErr e) message VNil)
                (c\<lparr>Error := Some (Ecode (RequestErr e)), ErrorMsg := err_Error e err\<rparr>)) \<and>
         ErrorMsg c' = err_Error e err \<and>
         (Error c' = Some (Ecode (RequestErr e)) \<or>
          (\<exists>er w. Error c' = Some er \<and>
             (fst (Render_body e (render_JSON (RequestErr e) message VNil) w) = Some er \<or>
              (\<exists>er'. Write_error e w '')'' = Some er' \<and> er = WithStack er')))) \<and>
         prefix (wrote (Writer c) @ [WriteHeader 200]) (wrote (Writer c')) \<and>
         IsAborted c' \<and> index c' = 63)) \<and>
   Bind e obj c =
     BindWith e obj (Default_binding e (Method (Request c)) (Values_Get (Header (Request c)) ''Content-Type'')) c"
proof (intro conjI allI impI)
  assume "Binding_Bind e b (Request c) obj = None"
  then show "BindWith e obj b c = (None, c)" by (simp add: BindWith_def mustBindWith_def)
next
  fix err assume f: "Binding_Bind e b (Request c) obj = Some err"
  define message where "message = (case err of
                      ValidationErrors errs \<Rightarrow> concat (map (\<lambda>v. v @ '';'') (Translate e errs))
                    | _ \<Rightarrow> err_Error e err)"
  define c1 where "c1 = c\<lparr>Error := Some (Ecode (RequestErr e)), ErrorMsg := err_Error e err\<rparr>"
  define c' where "c' = Abort (Render e 200 (render_JSON (RequestErr e) message VNil) c1)"
  have m: "(case err of ValidationErrors errs \<Rightarrow> foldl (\<lambda>m v. m @ v @ '';'') [] (Translate e errs)
            | _ \<Rightarrow> err_Error e err) = message"
    unfolding message_def by (cases err) (simp_all add: foldl_append_each)
  have b: "BindWith e obj b c = (Some err, c')"
    using f m by (simp add: BindWith_def mustBindWith_def Let_def c'_def c1_def)
  have em: "ErrorMsg c' = err_Error e err"
    using Render_frame[of e 200 "render_JSON (RequestErr e) message VNil" c1]
    by (simp add: c'_def Abort_def c1_def)
  have er: "Error c' = Some (Ecode (RequestErr e)) \<or>
          (\<exists>er w. Error c' = Some er \<and>
             (fst (Render_body e (render_JSON (RequestErr e) message VNil) w) = Some er \<or>
              (\<exists>er'. Write_error e w '')'' = Some er' \<and> er = WithStack er')))"
    using Render_Error[of e 200 "render_JSON (RequestErr e) message VNil" c1]
    by (simp add: c'_def Abort_def c1_def)
  have pr: "prefix (wrote (Writer c) @ [WriteHeader 200]) (wrote (Writer c'))"
    using Render_wrote_prefix[of 200 c1 e "render_JSON (RequestErr e) message VNil"]
    by (simp add: c'_def Abort_def c1_def)
  have ab: "IsAborted c' \<and> index c' = 63"
    by (simp add: c'_def Abort_def IsAborted_def abortIndex_def)
  show "\<exists>c' message.
         BindWith e obj b c = (Some err, c') \<and>
         message = (case err of
                      ValidationErrors errs \<Rightarrow> concat (map (\<lambda>v. v @ '';'') (Translate e errs))
                    | _ \<Rightarrow> err_Error e err) \<and>
         c' = Abort (Render e 200 (render_JSON (RequestErr e) message VNil)
                (c\<lparr>Error := Some (Ecode (RequestErr e)), ErrorMsg := err_Error e err\<rparr>)) \<and>
         ErrorMsg c' = err_Error e err \<and>
         (Error c' = Some (Ecode (RequestErr e)) \<or>
          (\<exists>er w. Error c' = Some er \<and>
             (fst (Render_body e (render_JSON (RequestErr e) message VNil) w) = Some er \<or>
              (\<exists>er'. Write_error e w '')'' = Some er' \<and> er = WithStack er')))) \<and>
         prefix (wrote (Writer c) @ [WriteHeader 200]) (wrote (Writer c')) \<and>
         IsAborted c' \<and> index c' = 63"
    apply (rule exI[of _ c'], rule exI[of _ message])
    using b em er pr ab by (simp add: message_def c'_def c1_def)
next
  show "Bind e obj c =
     BindWith e obj (Default_binding e (Method (Request c)) (Values_Get (Header (Request c)) ''Content-Type'')) c"
    by (simp add: Bind_def BindWith_def Let_def)
qed

theorem Bind_failure_and_success_witness:
  "Binding_Bind env0 0 (Request ctx0) 0 = None \<and> BindWith env0 0 0 ctx0 = (None, ctx0) \<and>
   Binding_Bind env0 0 (Request ctx0) 2 = Some (ValidationErrors [1, 2]) \<and>
   BindWith env0 2 0 ctx0 =
     (Some (ValidationErrors [1, 2]),
      ctx0\<lparr>Error := Some (Ecode (-400)), ErrorMsg := ''invalid'', index := 63,
        Writer := \<lparr>header = [''Content-Type'' \<mapsto> [''text/plain'']],
                   wrote = [WriteHeader 200, Write ''required;required;'']\<rparr>\<rparr>)"
proof -
  have r: "Render env0 200 (render_JSON (-400) ''required;required;'' VNil)
             (ctx0\<lparr>Error := Some (Ecode (-400)), ErrorMsg := ''invalid''\<rparr>) =
           ctx0\<lparr>Error := Some (Ecode (-400)), ErrorMsg := ''invalid'',
             Writer := \<lparr>header = [''Content-Type'' \<mapsto> [''text/plain'']],
                        wrote = [WriteHeader 200, Write ''required;required;'']\<rparr>\<rparr>"
    by (simp add: env0_def ctx0_def Render_def Status_def bodyAllowedForStatus_def
        Values_Get_def call_Render_def)
  have e: "RequestErr env0 = -400" "Translate env0 [1, 2] = [''required'', ''required'']"
    "err_Error env0 (ValidationErrors [1, 2]) = ''invalid''"
    "Binding_Bind env0 0 (Request ctx0) 0 = None"
    "Binding_Bind env0 0 (Request ctx0) 2 = Some (ValidationErrors [1, 2])"
    by (simp_all add: env0_def)
  from Bind_failure_and_success [of env0 0 ctx0 2] e(5) obtain c' message where
    h: "BindWith env0 2 0 ctx0 = (Some (ValidationErrors [1, 2]), c')"
       "message = (case ValidationErrors [1, 2] of
                      ValidationErrors errs \<Rightarrow> concat (map (\<lambda>v. v @ '';'') (Translate env0 errs))
                    | _ \<Rightarrow> err_Error env0 (ValidationErrors [1, 2]))"
       "c' = Abort (Render env0 200 (render_JSON (RequestErr env0) message VNil)
                (ctx0\<lparr>Error := Some (Ecode (RequestErr env0)),
                   ErrorMsg := err_Error env0 (ValidationErrors [1, 2])\<rparr>))"
    by blast
  have "message = ''required;required;''" using h(2) e by simp
  then have "c' = ctx0\<lparr>Error := Some (Ecode (-400)), ErrorMsg := ''invalid'', index := 63,
        Writer := \<lparr>header = [''Content-Type'' \<mapsto> [''text/plain'']],
                   wrote = [WriteHeader 200, Write ''required;required;'']\<rparr>\<rparr>"
    using h(3) r e by (simp add: Abort_def abortIndex_def)
  moreover have "BindWith env0 0 0 ctx0 = (None, ctx0)"
    using Bind_failure_and_success [of env0 0 ctx0 0] e(4) by blast
  ultimately show ?thesis using h(1) e(4,5) by simp
qed

section \<open>Remote IP\<close>



text \<open>\<open>TrimSpace\<close> removes white space at both ends and nothing else.\<close>

lemma TrimSpace_decomp:
  "\<exists>pre post. s = pre @ TrimSpace s @ post \<and> (\<forall>ch\<in>set pre. isSpace ch) \<and> (\<forall>ch\<in>set post. isSpace ch) \<and>
     (TrimSpace s \<noteq> [] \<longrightarrow> \<not> isSpace (hd (TrimSpace s)) \<and> \<not> isSpace (last (TrimSpace s)))"
proof -
  let ?t = "dropWhile isSpace s"
  let ?pre = "takeWhile isSpace s"
  let ?post = "rev (takeWhile isSpace (rev ?t))"
  have t: "?t = TrimSpace s @ ?post"
    by (metis TrimSpace_def rev_append rev_rev_ident takeWhile_dropWhile_id)
  have a: "s = ?pre @ TrimSpace s @ ?post" using t by (metis takeWhile_dropWhile_id)
  have b: "\<forall>ch\<in>set ?pre. isSpace ch" by (meson set_takeWhileD)
  have c: "\<forall>ch\<in>set ?post. isSpace ch" by (metis set_rev set_takeWhileD)
  have d: "TrimSpace s \<noteq> [] \<longrightarrow> \<not> isSpace (last (TrimSpace s))"
    by (metis TrimSpace_def hd_dropWhile last_rev rev_is_Nil_conv)
  have e: "TrimSpace s \<noteq> [] \<longrightarrow> \<not> isSpace (hd (TrimSpace s))"
  proof
    assume n: "TrimSpace s \<noteq> []"
    then have "?t \<noteq> []" using t by (metis append_is_Nil_conv)
    then have "\<not> isSpace (hd ?t)" by (rule hd_dropWhile)
    moreover have "hd ?t = hd (TrimSpace s)" using t n by (metis hd_append2)
    ultimately show "\<not> isSpace (hd (TrimSpace s))" by simp
  qed
  show ?thesis using a b c d e by blast
qed



end
